theory Spec2Isabelle
  imports
    Complex_Main
    "HOL-Library.Sublist"
    "HOL-Library.AList"
    "HOL-Library.Char_ord"
    "HOL-Library.List_Lexorder"
    "HOL-Library.Product_Lexorder"
begin

section \<open>Data model\<close>

text \<open>
  The dashboard works on pandas data frames. A cell is a number, a string or the missing
  value (pandas' NaN). float64 values are idealised as real numbers: rounding error,
  overflow and the infinities are not modelled. A column whose cells include a string
  is what pandas calls an object column; a column of \<open>Num\<close> and \<open>NaN\<close> cells is a
  numeric one.

  A frame is row-major: the ordered column labels, and the rows in order, each row a
  finite map from column label to cell. The index labels of pandas are not modelled; a
  row is identified by its position. In a well-formed frame every row defines exactly the
  frame's columns.
\<close>

datatype cell = is_Num: Num real | is_Str: Str string | is_NaN: NaN

type_synonym row = "string \<Rightarrow> cell option"

record dataframe =
  columns :: "string list"
  rows :: "row list"

text \<open>The exceptions of Python that the modelled code can raise.\<close>

datatype py_error = KeyError | TypeError

text \<open>Reading a cell of a row; a column the row lacks reads as missing.\<close>

definition cell_of :: "row \<Rightarrow> string \<Rightarrow> cell" where
  "cell_of r c = (case r c of Some v \<Rightarrow> v | None \<Rightarrow> NaN)"

text \<open>\<open>df[c]\<close>: the cells of column \<open>c\<close>, top to bottom.\<close>

definition get_column :: "dataframe \<Rightarrow> string \<Rightarrow> cell list" where
  "get_column df c = map (\<lambda>r. cell_of r c) (rows df)"

text \<open>
  \<open>df[c] = vals\<close> for a series \<open>vals\<close> computed from \<open>df\<close> itself (one value per row):
  an existing column is replaced in place, a new one is appended on the right.
\<close>

definition set_column :: "dataframe \<Rightarrow> string \<Rightarrow> cell list \<Rightarrow> dataframe" where
  "set_column df c vals =
     \<lparr>columns = (if c \<in> set (columns df) then columns df else columns df @ [c]),
      rows = map (\<lambda>(r, v). r(c \<mapsto> v)) (zip (rows df) vals)\<rparr>"

section \<open>utils.py: numeric coercion\<close>

text \<open>
  \<open>pd.to_numeric(series, errors="coerce")\<close>. The text-to-number parser of pandas is a
  parameter \<open>p\<close> of the model (\<open>p s = None\<close> when \<open>s\<close> does not parse as a number, or
  parses as NaN), so every theorem below holds for every parser. Numbers and missing
  values are kept; a string becomes the number it parses to, or the missing value.
\<close>

type_synonym parser = "string \<Rightarrow> real option"

fun to_numeric_cell :: "parser \<Rightarrow> cell \<Rightarrow> cell" where
  "to_numeric_cell p (Num x) = Num x"
| "to_numeric_cell p (Str s) = (case p s of Some x \<Rightarrow> Num x | None \<Rightarrow> NaN)"
| "to_numeric_cell p NaN = NaN"

definition to_numeric :: "parser \<Rightarrow> cell list \<Rightarrow> cell list" where
  "to_numeric p series = map (to_numeric_cell p) series"

text \<open>
  \<^verbatim>\<open>
  def coerce_numeric(df, cols):
      out = df.copy()
      for c in cols:
          if c in out.columns:
              out[c] = pd.to_numeric(out[c], errors="coerce")
      return out
  \<close>
  On values, the copy is the frame itself; the loop is a fold over \<open>cols\<close> in order.
\<close>

definition coerce_step :: "parser \<Rightarrow> string \<Rightarrow> dataframe \<Rightarrow> dataframe" where
  "coerce_step p c out =
     (if c \<in> set (columns out) then set_column out c (to_numeric p (get_column out c))
      else out)"

definition coerce_numeric :: "parser \<Rightarrow> dataframe \<Rightarrow> string list \<Rightarrow> dataframe" where
  "coerce_numeric p df cols = fold (coerce_step p) cols df"

text \<open>
  The same function on a store of frames, to make the copy and the assignments to
  \<open>out\<close> explicit. A store is the list of the frames allocated so far and a reference is
  a position in it; \<open>df.copy()\<close> allocates a new frame with the contents of \<open>df\<close>, and
  \<open>out[c] = ...\<close> overwrites the frame that \<open>out\<close> refers to. A reference that is not
  allocated cannot occur in Python; the model answers \<open>None\<close> for it.
\<close>

type_synonym store = "dataframe list"

definition copy_frame :: "store \<Rightarrow> nat \<Rightarrow> store \<times> nat" where
  "copy_frame h a = (h @ [h ! a], length h)"

definition coerce_step_store :: "parser \<Rightarrow> nat \<Rightarrow> string \<Rightarrow> store \<Rightarrow> store" where
  "coerce_step_store p out c h =
     (if c \<in> set (columns (h ! out))
      then h[out := set_column (h ! out) c (to_numeric p (get_column (h ! out) c))]
      else h)"

definition coerce_numeric_store ::
  "parser \<Rightarrow> store \<Rightarrow> nat \<Rightarrow> string list \<Rightarrow> (store \<times> nat) option" where
  "coerce_numeric_store p h df cols =
     (if df < length h
      then (case copy_frame h df of (h1, out) \<Rightarrow> Some (fold (coerce_step_store p out) cols h1, out))
      else None)"

text \<open>
  The closed form used to state the results: the row \<open>r\<close> with the cells of the columns
  in \<open>S\<close> converted.
\<close>

definition coerced_row :: "parser \<Rightarrow> string set \<Rightarrow> row \<Rightarrow> row" where
  "coerced_row p S r = (\<lambda>c. if c \<in> S then Some (to_numeric_cell p (cell_of r c)) else r c)"

section \<open>utils.py: daylight filter\<close>

text \<open>
  \<open>df[ghi_col] > threshold\<close> compares cell by cell. The missing value compares false
  against every number. Python cannot order a string against a number, so the
  comparison of an object column that holds a string raises \<open>TypeError\<close>.
\<close>

fun gt_cell :: "cell \<Rightarrow> real \<Rightarrow> py_error + bool" where
  "gt_cell (Num x) t = Inr (t < x)"
| "gt_cell (Str s) t = Inl TypeError"
| "gt_cell NaN t = Inr False"

fun series_gt :: "cell list \<Rightarrow> real \<Rightarrow> py_error + bool list" where
  "series_gt [] t = Inr []"
| "series_gt (v # vs) t =
     (case gt_cell v t of
        Inl e \<Rightarrow> Inl e
      | Inr b \<Rightarrow> (case series_gt vs t of Inl e \<Rightarrow> Inl e | Inr bs \<Rightarrow> Inr (b # bs)))"

text \<open>\<open>df[mask]\<close>: the rows whose mask entry is true, in order, under the same columns.\<close>

definition boolean_index :: "dataframe \<Rightarrow> bool list \<Rightarrow> dataframe" where
  "boolean_index df msk =
     \<lparr>columns = columns df, rows = map fst (filter snd (zip (rows df) msk))\<rparr>"

text \<open>
  \<^verbatim>\<open>
  def daylight_filter(df, ghi_col="GHI", threshold=20.0):
      if ghi_col not in df.columns:
          return df.copy()
      return df[df[ghi_col] > threshold].copy()
  \<close>
\<close>

definition daylight_filter :: "dataframe \<Rightarrow> string \<Rightarrow> real \<Rightarrow> py_error + dataframe" where
  "daylight_filter df ghi_col threshold =
     (if ghi_col \<notin> set (columns df) then Inr df
      else (case series_gt (get_column df ghi_col) threshold of
              Inl e \<Rightarrow> Inl e
            | Inr msk \<Rightarrow> Inr (boolean_index df msk)))"

text \<open>A cell that is a number above the threshold.\<close>

definition above :: "real \<Rightarrow> cell \<Rightarrow> bool" where
  "above t v = (case v of Num x \<Rightarrow> t < x | Str s \<Rightarrow> False | NaN \<Rightarrow> False)"

section \<open>utils.py: file locator\<close>






section \<open>main.py: the label guessed from an uploaded file's name\<close>













section \<open>main.py: ingestion\<close>

text \<open>
  \<open>pd.read_csv\<close> is an input of the model: a reader answers, for a path, either the
  frame parsed from the file or the text of the exception that the attempt raised.

  A status message is one of the two formatted strings of the script,
  \<^verbatim>\<open>f"Loaded: {country} <- {path}"\<close> and \<^verbatim>\<open>f"(cross) Failed to read {path}: {e}"\<close>, kept
  here with its fields.
\<close>

datatype status_msg = is_Loaded: Loaded string string | is_Failed: Failed string string

type_synonym reader = "string \<Rightarrow> string + dataframe"

text \<open>\<open>df[c] = v\<close> for one value \<open>v\<close>: every row gets \<open>v\<close> in column \<open>c\<close>.\<close>

definition assign_scalar :: "dataframe \<Rightarrow> string \<Rightarrow> cell \<Rightarrow> dataframe" where
  "assign_scalar df c v =
     \<lparr>columns = (if c \<in> set (columns df) then columns df else columns df @ [c]),
      rows = map (\<lambda>r. r(c \<mapsto> v)) (rows df)\<rparr>"

text \<open>
  The body of the loop over the detected files, on the two lists it appends to:
  \<^verbatim>\<open>
  for country, path in detected.items():
      try:
          df = pd.read_csv(path)
          df["Country"] = country
          dfs.append(df)
          status_msgs.append(f"Loaded: {country} <- {path}")
      except Exception as e:
          status_msgs.append(f"(cross) Failed to read {path}: {e}")
  \<close>
\<close>

definition load_step ::
  "reader \<Rightarrow> string \<times> string \<Rightarrow> dataframe list \<times> status_msg list
     \<Rightarrow> dataframe list \<times> status_msg list" where
  "load_step read_csv item acc =
     (case item of (country, path) \<Rightarrow>
      (case acc of (dfs, status_msgs) \<Rightarrow>
       (case read_csv path of
          Inr df \<Rightarrow>
            (dfs @ [assign_scalar df ''Country'' (Str country)],
             status_msgs @ [Loaded country path])
        | Inl e \<Rightarrow> (dfs, status_msgs @ [Failed path e]))))"

definition load_detected ::
  "reader \<Rightarrow> (string \<times> string) list \<Rightarrow> dataframe list \<times> status_msg list" where
  "load_detected read_csv detected = fold (load_step read_csv) detected ([], [])"

text \<open>
  \<open>pd.concat(dfs, ignore_index=True)\<close>: the columns are the union of the frames'
  columns in order of first appearance, the rows are the frames' rows one frame after
  the other, and a row has the missing value in every column its frame lacks.
\<close>

definition union_columns :: "dataframe list \<Rightarrow> string list" where
  "union_columns dfs = rev (remdups (rev (concat (map columns dfs))))"

definition reindex :: "string list \<Rightarrow> row \<Rightarrow> row" where
  "reindex cols r = (\<lambda>c. if c \<in> set cols then Some (cell_of r c) else None)"

definition pd_concat :: "dataframe list \<Rightarrow> dataframe" where
  "pd_concat dfs =
     \<lparr>columns = union_columns dfs,
      rows = concat (map (\<lambda>df. map (reindex (union_columns dfs)) (rows df)) dfs)\<rparr>"

text \<open>
  \<^verbatim>\<open>
  if not dfs:
      st.warning("No data available yet. ...")
      st.stop()
  df_all = pd.concat(dfs, ignore_index=True)
  \<close>
  When nothing was loaded the script stops and there is no unified table.
\<close>

definition df_all :: "dataframe list \<Rightarrow> dataframe option" where
  "df_all dfs = (if dfs = [] then None else Some (pd_concat dfs))"

text \<open>
  Closed forms used to state the results: whether a detected file loads, the labelled
  frame it gives, and its rows as they stand in a unified table with columns \<open>cols\<close>.
\<close>

definition loads :: "reader \<Rightarrow> string \<times> string \<Rightarrow> bool" where
  "loads read_csv item = (case read_csv (snd item) of Inr df \<Rightarrow> True | Inl e \<Rightarrow> False)"

definition labelled :: "reader \<Rightarrow> string \<times> string \<Rightarrow> dataframe" where
  "labelled read_csv item =
     (case read_csv (snd item) of
        Inr df \<Rightarrow> assign_scalar df ''Country'' (Str (fst item))
      | Inl e \<Rightarrow> \<lparr>columns = [], rows = []\<rparr>)"

definition tagged_rows :: "reader \<Rightarrow> string list \<Rightarrow> string \<times> string \<Rightarrow> row list" where
  "tagged_rows read_csv cols item =
     (case read_csv (snd item) of
        Inr df \<Rightarrow> map (\<lambda>r. reindex cols (r(''Country'' \<mapsto> Str (fst item)))) (rows df)
      | Inl e \<Rightarrow> [])"

section \<open>main.py: the filtered view\<close>




section \<open>main.py: aggregation and ranking\<close>




















section \<open>Numeric coercion: results\<close>

lemma to_numeric_cell_idem: "to_numeric_cell p (to_numeric_cell p v) = to_numeric_cell p v"
  by (cases v) (auto split: option.splits)

lemma to_numeric_cell_not_Str: "to_numeric_cell p v \<noteq> Str s"
  by (cases v) (auto split: option.splits)

lemma columns_coerce_step: "columns (coerce_step p c df) = columns df"
  by (simp add: coerce_step_def set_column_def)

lemma rows_coerce_step:
  "rows (coerce_step p c df) =
     (if c \<in> set (columns df) then map (coerced_row p {c}) (rows df) else rows df)"
proof -
  have "map (\<lambda>(r, v). r(c \<mapsto> v)) (zip rs (map (to_numeric_cell p) (map (\<lambda>r. cell_of r c) rs)))
        = map (coerced_row p {c}) rs" for rs
    by (induction rs) (auto simp: coerced_row_def fun_eq_iff)
  then show ?thesis
    by (simp add: coerce_step_def set_column_def to_numeric_def get_column_def)
qed

lemma coerced_row_insert:
  "coerced_row p S (coerced_row p {c} r) = coerced_row p (insert c S) r"
  by (auto simp: coerced_row_def fun_eq_iff cell_of_def to_numeric_cell_idem)

lemma columns_coerce_numeric: "columns (coerce_numeric p df cs) = columns df"
  unfolding coerce_numeric_def
  by (induction cs arbitrary: df) (simp_all add: columns_coerce_step)

lemma rows_coerce_numeric:
  "rows (coerce_numeric p df cs) = map (coerced_row p (set cs \<inter> set (columns df))) (rows df)"
  unfolding coerce_numeric_def
proof (induction cs arbitrary: df)
  case Nil
  have "coerced_row p {} = (\<lambda>r. r)"
    by (simp add: coerced_row_def fun_eq_iff)
  then show ?case by simp
next
  case (Cons c cs)
  show ?case
  proof (cases "c \<in> set (columns df)")
    case True
    then have eq: "insert c (set cs \<inter> set (columns df)) = set (c # cs) \<inter> set (columns df)"
      by auto
    show ?thesis
      using True
      by (simp add: Cons.IH columns_coerce_step rows_coerce_step coerced_row_insert
          o_def eq del: set_simps)
  next
    case False
    then have "set (c # cs) \<inter> set (columns df) = set cs \<inter> set (columns df)"
      by auto
    then show ?thesis
      using False by (simp add: Cons.IH columns_coerce_step rows_coerce_step del: set_simps)
  qed
qed

lemma coerced_row_idem: "coerced_row p S (coerced_row p S r) = coerced_row p S r"
  by (auto simp: coerced_row_def fun_eq_iff cell_of_def to_numeric_cell_idem)

text \<open>
  Claim C4. For every frame, every list of column names and every parser,
  \<open>coerce_numeric\<close> returns a frame (it has no error outcome) with the same columns, so
  no column is added for a name the frame lacks, and the same number of rows; the cell
  of a column that is both named and present is the converted cell, every other cell is
  the input's. A string that does not parse converts to the missing value, and no
  converted cell is a string.
\<close>

theorem coerce_numeric_converts:
  "columns (coerce_numeric p df cs) = columns df \<and>
   length (rows (coerce_numeric p df cs)) = length (rows df) \<and>
   (\<forall>i c. i < length (rows df) \<longrightarrow>
      (rows (coerce_numeric p df cs) ! i) c =
        (if c \<in> set cs \<and> c \<in> set (columns df)
         then Some (to_numeric_cell p (cell_of (rows df ! i) c))
         else (rows df ! i) c)) \<and>
   (\<forall>s. p s = None \<longrightarrow> to_numeric_cell p (Str s) = NaN) \<and>
   (\<forall>v s. to_numeric_cell p v \<noteq> Str s)"
  by (simp add: columns_coerce_numeric rows_coerce_numeric coerced_row_def
      to_numeric_cell_not_Str)

theorem coerce_numeric_converts_witness:
  "(rows (coerce_numeric (\<lambda>s. if s = ''12.5'' then Some 12.5 else None)
       \<lparr>columns = [''GHI'', ''Site''],
        rows = [[''GHI'' \<mapsto> Str ''12.5'', ''Site'' \<mapsto> Str ''a''],
                [''GHI'' \<mapsto> Str ''n/a'', ''Site'' \<mapsto> Str ''b'']]\<rparr>
       [''GHI'', ''DNI'', ''GHI'']) ! 1) ''GHI'' = Some NaN \<and>
   (rows (coerce_numeric (\<lambda>s. if s = ''12.5'' then Some 12.5 else None)
       \<lparr>columns = [''GHI'', ''Site''],
        rows = [[''GHI'' \<mapsto> Str ''12.5'', ''Site'' \<mapsto> Str ''a''],
                [''GHI'' \<mapsto> Str ''n/a'', ''Site'' \<mapsto> Str ''b'']]\<rparr>
       [''GHI'', ''DNI'', ''GHI'']) ! 0) ''GHI'' = Some (Num 12.5) \<and>
   (rows (coerce_numeric (\<lambda>s. if s = ''12.5'' then Some 12.5 else None)
       \<lparr>columns = [''GHI'', ''Site''],
        rows = [[''GHI'' \<mapsto> Str ''12.5'', ''Site'' \<mapsto> Str ''a''],
                [''GHI'' \<mapsto> Str ''n/a'', ''Site'' \<mapsto> Str ''b'']]\<rparr>
       [''GHI'', ''DNI'', ''GHI'']) ! 1) ''Site'' = Some (Str ''b'') \<and>
   columns (coerce_numeric (\<lambda>s. if s = ''12.5'' then Some 12.5 else None)
       \<lparr>columns = [''GHI'', ''Site''],
        rows = [[''GHI'' \<mapsto> Str ''12.5'', ''Site'' \<mapsto> Str ''a''],
                [''GHI'' \<mapsto> Str ''n/a'', ''Site'' \<mapsto> Str ''b'']]\<rparr>
       [''GHI'', ''DNI'', ''GHI'']) = [''GHI'', ''Site'']"
proof -
  let ?p = "\<lambda>s. if s = ''12.5'' then Some (12.5::real) else None"
  let ?df = "\<lparr>columns = [''GHI'', ''Site''],
        rows = [[''GHI'' \<mapsto> Str ''12.5'', ''Site'' \<mapsto> Str ''a''],
                [''GHI'' \<mapsto> Str ''n/a'', ''Site'' \<mapsto> Str ''b'']]\<rparr>"
  let ?cs = "[''GHI'', ''DNI'', ''GHI'']"
  note main = coerce_numeric_converts [of ?p ?df ?cs]
  note cells = main [THEN conjunct2, THEN conjunct2, THEN conjunct1, rule_format]
  have "(rows (coerce_numeric ?p ?df ?cs) ! 1) ''GHI'' = Some NaN"
    using cells [of 1 "''GHI''"] by (simp add: cell_of_def)
  moreover have "(rows (coerce_numeric ?p ?df ?cs) ! 0) ''GHI'' = Some (Num 12.5)"
    using cells [of 0 "''GHI''"] by (simp add: cell_of_def)
  moreover have "(rows (coerce_numeric ?p ?df ?cs) ! 1) ''Site'' = Some (Str ''b'')"
    using cells [of 1 "''Site''"] by simp
  moreover have "columns (coerce_numeric ?p ?df ?cs) = [''GHI'', ''Site'']"
    using main [THEN conjunct1] by simp
  ultimately show ?thesis by blast
qed

text \<open>
  Claim C5. Numeric coercion is idempotent: coercing the coerced frame with the same
  column names gives the coerced frame.
\<close>

theorem coerce_numeric_idempotent:
  "coerce_numeric p (coerce_numeric p df cs) cs = coerce_numeric p df cs"
  by (rule dataframe.equality)
    (simp_all add: columns_coerce_numeric rows_coerce_numeric coerced_row_idem o_def)

lemma fold_coerce_step_store:
  "fold (coerce_step_store p (length h)) cs (h @ [x]) = h @ [fold (coerce_step p) cs x]"
  by (induction cs arbitrary: x) (simp_all add: coerce_step_store_def coerce_step_def)

text \<open>
  Claim C10. Called on an allocated frame, \<open>coerce_numeric\<close> returns a reference to a
  newly allocated frame and leaves every frame that existed before the call, the input
  among them, as it was. The new frame holds the coerced value; its columns, its number
  of rows and the cells of every column not named in \<open>cols\<close> are the input's, row by
  row in the same order.
\<close>

theorem coerce_numeric_store_frame:
  "df < length h \<Longrightarrow>
   \<exists>h' out. coerce_numeric_store p h df cs = Some (h', out) \<and>
     out = length h \<and> out \<noteq> df \<and>
     length h' = Suc (length h) \<and>
     take (length h) h' = h \<and>
     h' ! out = coerce_numeric p (h ! df) cs \<and>
     columns (h' ! out) = columns (h ! df) \<and>
     length (rows (h' ! out)) = length (rows (h ! df)) \<and>
     (\<forall>i c. i < length (rows (h ! df)) \<longrightarrow> c \<notin> set cs \<longrightarrow>
        (rows (h' ! out) ! i) c = (rows (h ! df) ! i) c)"
  by (simp add: coerce_numeric_store_def copy_frame_def fold_coerce_step_store
      coerce_numeric_def [symmetric] columns_coerce_numeric rows_coerce_numeric
      coerced_row_def)

theorem coerce_numeric_store_frame_witness:
  "(0::nat) < length [\<lparr>columns = [''GHI''], rows = [[''GHI'' \<mapsto> Str ''x'']]\<rparr>] \<and>
   (\<exists>h' out.
      coerce_numeric_store (\<lambda>s. None)
        [\<lparr>columns = [''GHI''], rows = [[''GHI'' \<mapsto> Str ''x'']]\<rparr>] 0 [''GHI''] = Some (h', out) \<and>
      out = 1 \<and>
      take 1 h' = [\<lparr>columns = [''GHI''], rows = [[''GHI'' \<mapsto> Str ''x'']]\<rparr>] \<and>
      (rows (h' ! out) ! 0) ''GHI'' = Some NaN)"
proof -
  let ?df = "\<lparr>columns = [''GHI''], rows = [[''GHI'' \<mapsto> Str ''x'']]\<rparr>"
  have valid: "(0::nat) < length [?df]" by simp
  obtain h' out where
    res: "coerce_numeric_store (\<lambda>s. None) [?df] 0 [''GHI''] = Some (h', out)"
    and out: "out = length [?df]"
    and old: "take (length [?df]) h' = [?df]"
    and new: "h' ! out = coerce_numeric (\<lambda>s. None) ([?df] ! 0) [''GHI'']"
    using coerce_numeric_store_frame [OF valid, of "\<lambda>s. None" "[''GHI'']"] by blast
  have "(rows (h' ! out) ! 0) ''GHI'' = Some NaN"
    by (simp add: new rows_coerce_numeric coerced_row_def cell_of_def)
  with valid res out old show ?thesis by simp
qed

section \<open>Daylight filter: results\<close>

lemma series_gt_closed:
  "series_gt vs t = (if list_ex is_Str vs then Inl TypeError else Inr (map (above t) vs))"
proof (induction vs)
  case Nil
  show ?case by simp
next
  case (Cons v vs)
  show ?case by (cases v) (simp_all add: Cons.IH above_def)
qed

lemma mask_filter: "map fst (filter snd (zip rs (map g rs))) = filter g rs"
  by (induction rs) simp_all

lemma daylight_filter_closed:
  "daylight_filter df c t =
     (if c \<notin> set (columns df) then Inr df
      else if list_ex is_Str (get_column df c) then Inl TypeError
      else Inr \<lparr>columns = columns df, rows = filter (\<lambda>r. above t (cell_of r c)) (rows df)\<rparr>)"
proof -
  have "map fst (filter snd (zip rs (map (above t) (map (\<lambda>r. cell_of r c) rs))))
        = filter (\<lambda>r. above t (cell_of r c)) rs" for rs
    using mask_filter [of rs "\<lambda>r. above t (cell_of r c)"] by (simp add: o_def)
  then show ?thesis
    by (simp add: daylight_filter_def series_gt_closed boolean_index_def get_column_def)
qed

lemma subseq_filter_mono:
  "(\<And>x. P x \<Longrightarrow> Q x) \<Longrightarrow> subseq (filter P xs) (filter Q xs)"
proof (induction xs)
  case Nil
  show ?case by simp
next
  case (Cons x xs)
  then show ?case by (auto intro: subseq_Cons')
qed

lemma above_mono: "t1 \<le> t2 \<Longrightarrow> above t2 v \<Longrightarrow> above t1 v"
  by (cases v) (simp_all add: above_def)

lemma above_iff: "above t v = (\<exists>x. v = Num x \<and> t < x)"
  by (cases v) (simp_all add: above_def)

text \<open>
  Claim C3, as the code has it. If the column is absent, \<open>daylight_filter\<close> returns the
  frame unchanged. If the column is present and holds no string (as every column does
  after numeric coercion), it returns the frame with exactly the rows, in order, whose
  cell in that column is a number strictly greater than the threshold; a row whose cell
  is missing is excluded. If the column holds a string, the comparison raises
  \<open>TypeError\<close>.
\<close>

theorem daylight_filter_rows:
  "(c \<notin> set (columns df) \<longrightarrow> daylight_filter df c t = Inr df) \<and>
   (c \<in> set (columns df) \<and> \<not> list_ex is_Str (get_column df c) \<longrightarrow>
      daylight_filter df c t =
        Inr \<lparr>columns = columns df,
             rows = filter (\<lambda>r. \<exists>x. cell_of r c = Num x \<and> t < x) (rows df)\<rparr>) \<and>
   (c \<in> set (columns df) \<and> list_ex is_Str (get_column df c) \<longrightarrow>
      daylight_filter df c t = Inl TypeError)"
  by (simp add: daylight_filter_closed above_iff)

theorem daylight_filter_rows_witness:
  "''GHI'' \<in> set (columns \<lparr>columns = [''GHI''],
       rows = [[''GHI'' \<mapsto> Num 50], [''GHI'' \<mapsto> NaN], [''GHI'' \<mapsto> Num 20]]\<rparr>) \<and>
   \<not> list_ex is_Str (get_column \<lparr>columns = [''GHI''],
       rows = [[''GHI'' \<mapsto> Num 50], [''GHI'' \<mapsto> NaN], [''GHI'' \<mapsto> Num 20]]\<rparr> ''GHI'') \<and>
   daylight_filter \<lparr>columns = [''GHI''],
       rows = [[''GHI'' \<mapsto> Num 50], [''GHI'' \<mapsto> NaN], [''GHI'' \<mapsto> Num 20]]\<rparr> ''GHI'' 20
     = Inr \<lparr>columns = [''GHI''], rows = [[''GHI'' \<mapsto> Num 50]]\<rparr> \<and>
   ''DNI'' \<notin> set (columns \<lparr>columns = [''GHI''], rows = [[''GHI'' \<mapsto> Num 50]]\<rparr>) \<and>
   daylight_filter \<lparr>columns = [''GHI''], rows = [[''GHI'' \<mapsto> Num 50]]\<rparr> ''DNI'' 20
     = Inr \<lparr>columns = [''GHI''], rows = [[''GHI'' \<mapsto> Num 50]]\<rparr>"
proof -
  let ?df = "\<lparr>columns = [''GHI''],
       rows = [[''GHI'' \<mapsto> Num 50], [''GHI'' \<mapsto> NaN], [''GHI'' \<mapsto> Num 20]]\<rparr>"
  let ?small = "\<lparr>columns = [''GHI''], rows = [[''GHI'' \<mapsto> Num 50]]\<rparr>"
  have present: "''GHI'' \<in> set (columns ?df) \<and> \<not> list_ex is_Str (get_column ?df ''GHI'')"
    by (simp add: get_column_def cell_of_def)
  have absent: "''DNI'' \<notin> set (columns ?small)"
    by simp
  have "daylight_filter ?df ''GHI'' 20 = Inr ?small"
    using daylight_filter_rows [of "''GHI''" ?df 20, THEN conjunct2, THEN conjunct1, rule_format,
        OF present]
    by (simp add: cell_of_def)
  moreover have "daylight_filter ?small ''DNI'' 20 = Inr ?small"
    using daylight_filter_rows [of "''DNI''" ?small 20, THEN conjunct1, rule_format, OF absent] .
  ultimately show ?thesis
    using present absent by blast
qed

text \<open>
  The claim as written fails on a column that holds a string: the row with the
  non-comparable value is not dropped, the call raises.
\<close>

theorem daylight_filter_string_counterexample:
  "daylight_filter
     \<lparr>columns = [''GHI''], rows = [[''GHI'' \<mapsto> Num 50], [''GHI'' \<mapsto> Str ''n/a'']]\<rparr>
     ''GHI'' 20 = Inl TypeError"
  by (simp add: daylight_filter_def get_column_def cell_of_def)

text \<open>
  Claim C6. The daylight filter is antitone in the threshold. For thresholds
  \<open>t1 \<le> t2\<close> (so in particular for \<open>t1 < t2\<close>), either both calls raise the same
  error, or both return, and the rows kept at \<open>t2\<close> are among the rows kept at \<open>t1\<close>,
  in the same relative order and under the same columns.
\<close>

theorem daylight_filter_antitone:
  "t1 \<le> t2 \<Longrightarrow>
   (case daylight_filter df c t1 of
      Inl e \<Rightarrow> daylight_filter df c t2 = Inl e
    | Inr r1 \<Rightarrow>
        (\<exists>r2. daylight_filter df c t2 = Inr r2 \<and>
              set (rows r2) \<subseteq> set (rows r1) \<and>
              subseq (rows r2) (rows r1) \<and>
              columns r2 = columns r1))"
proof -
  assume le: "t1 \<le> t2"
  have sub: "subseq (filter (\<lambda>r. above t2 (cell_of r c)) (rows df))
               (filter (\<lambda>r. above t1 (cell_of r c)) (rows df))"
    by (rule subseq_filter_mono) (rule above_mono [OF le])
  have "set (filter (\<lambda>r. above t2 (cell_of r c)) (rows df))
          \<subseteq> set (filter (\<lambda>r. above t1 (cell_of r c)) (rows df))"
    using above_mono [OF le] by auto
  with sub show ?thesis
    by (simp add: daylight_filter_closed)
qed

theorem daylight_filter_antitone_witness:
  "(20::real) \<le> 60 \<and>
   daylight_filter \<lparr>columns = [''GHI''],
       rows = [[''GHI'' \<mapsto> Num 50], [''GHI'' \<mapsto> NaN], [''GHI'' \<mapsto> Num 70]]\<rparr> ''GHI'' 20
     = Inr \<lparr>columns = [''GHI''], rows = [[''GHI'' \<mapsto> Num 50], [''GHI'' \<mapsto> Num 70]]\<rparr> \<and>
   (\<exists>r2. daylight_filter \<lparr>columns = [''GHI''],
       rows = [[''GHI'' \<mapsto> Num 50], [''GHI'' \<mapsto> NaN], [''GHI'' \<mapsto> Num 70]]\<rparr> ''GHI'' 60
        = Inr r2 \<and>
      subseq (rows r2) [[''GHI'' \<mapsto> Num 50], [''GHI'' \<mapsto> Num 70]])"
proof -
  let ?df = "\<lparr>columns = [''GHI''],
       rows = [[''GHI'' \<mapsto> Num 50], [''GHI'' \<mapsto> NaN], [''GHI'' \<mapsto> Num 70]]\<rparr>"
  have le: "(20::real) \<le> 60" by simp
  have low: "daylight_filter ?df ''GHI'' 20
      = Inr \<lparr>columns = [''GHI''], rows = [[''GHI'' \<mapsto> Num 50], [''GHI'' \<mapsto> Num 70]]\<rparr>"
    by (simp add: daylight_filter_def get_column_def cell_of_def boolean_index_def)
  show ?thesis
    using daylight_filter_antitone [OF le, of ?df "''GHI''"] le low
    by auto
qed

section \<open>File locator: results\<close>








section \<open>Label guess: results\<close>









section \<open>Ingestion: results\<close>

lemma load_step_pair:
  "load_step rd (country, path) (dfs, msgs) =
     (case rd path of
        Inr df \<Rightarrow> (dfs @ [assign_scalar df ''Country'' (Str country)], msgs @ [Loaded country path])
      | Inl e \<Rightarrow> (dfs, msgs @ [Failed path e]))"
  by (simp add: load_step_def)

lemma fold_load_step:
  "fold (load_step rd) xs (dfs, msgs) =
     (dfs @ map (labelled rd) (filter (loads rd) xs),
      msgs @ map (\<lambda>item. case rd (snd item) of Inr df \<Rightarrow> Loaded (fst item) (snd item)
                                              | Inl e \<Rightarrow> Failed (snd item) e) xs)"
proof (induction xs arbitrary: dfs msgs)
  case Nil
  show ?case by simp
next
  case (Cons x xs)
  show ?case
    by (cases x; cases "rd (snd x)")
      (simp_all add: load_step_pair Cons.IH loads_def labelled_def)
qed

lemma failed_count:
  "length (filter is_Failed
      (map (\<lambda>item. case rd (snd item) of Inr df \<Rightarrow> Loaded (fst item) (snd item)
                                        | Inl e \<Rightarrow> Failed (snd item) e) xs))
   = length (filter (\<lambda>item. \<not> loads rd item) xs)"
  by (induction xs) (auto simp: loads_def split: sum.splits)

lemma set_union_columns: "set (union_columns dfs) = (\<Union>df \<in> set dfs. set (columns df))"
  by (simp add: union_columns_def)

lemma rows_labelled_concat:
  "concat (map (\<lambda>df. map (reindex cols) (rows df)) (map (labelled rd) (filter (loads rd) xs)))
   = concat (map (tagged_rows rd cols) (filter (loads rd) xs))"
  by (induction xs) (auto simp: loads_def labelled_def tagged_rows_def assign_scalar_def
      split: sum.splits)

lemma country_in_labelled: "loads rd item \<Longrightarrow> ''Country'' \<in> set (columns (labelled rd item))"
  by (auto simp: loads_def labelled_def assign_scalar_def split: sum.splits)

lemma tagged_rows_cells:
  "\<forall>item df. rd (snd item) = Inr df \<longrightarrow>
     length (tagged_rows rd cols item) = length (rows df) \<and>
     (\<forall>i c. i < length (rows df) \<and> c \<in> set cols \<longrightarrow>
        (tagged_rows rd cols item ! i) c =
          Some (if c = ''Country'' then Str (fst item) else cell_of (rows df ! i) c))"
  by (simp add: tagged_rows_def reindex_def cell_of_def)

text \<open>
  Claim C8, as the code has it. When exactly one of \<open>N \<ge> 2\<close> detected files fails to
  parse, the loop still handles every file: the status log has \<open>N\<close> entries of which
  exactly one is a failure, the \<open>N - 1\<close> other files are loaded in order, each labelled
  with its country, and the unified table exists and consists of exactly their rows,
  frame after frame, each row carrying its file's label in \<open>Country\<close>, its file's cells
  and the missing value in the columns only other files have.
\<close>

theorem ingest_partial_failure:
  assumes one: "length (filter (\<lambda>item. \<not> loads rd item) detected) = 1"
    and two: "2 \<le> length detected"
  shows "\<exists>dfs msgs u.
     load_detected rd detected = (dfs, msgs) \<and>
     length msgs = length detected \<and>
     length (filter is_Failed msgs) = 1 \<and>
     dfs = map (labelled rd) (filter (loads rd) detected) \<and>
     length dfs = length detected - 1 \<and>
     df_all dfs = Some u \<and>
     ''Country'' \<in> set (columns u) \<and>
     list_all (\<lambda>df. set (columns df) \<subseteq> set (columns u)) dfs \<and>
     rows u = concat (map (tagged_rows rd (columns u)) (filter (loads rd) detected)) \<and>
     (\<forall>item df. rd (snd item) = Inr df \<longrightarrow>
        length (tagged_rows rd (columns u) item) = length (rows df) \<and>
        (\<forall>i c. i < length (rows df) \<and> c \<in> set (columns u) \<longrightarrow>
           (tagged_rows rd (columns u) item ! i) c =
             Some (if c = ''Country'' then Str (fst item) else cell_of (rows df ! i) c)))"
proof -
  let ?dfs = "map (labelled rd) (filter (loads rd) detected)"
  let ?msgs = "map (\<lambda>item. case rd (snd item) of Inr df \<Rightarrow> Loaded (fst item) (snd item)
                                              | Inl e \<Rightarrow> Failed (snd item) e) detected"
  have res: "load_detected rd detected = (?dfs, ?msgs)"
    by (simp add: load_detected_def fold_load_step)
  have "length (filter (loads rd) detected) + length (filter (\<lambda>item. \<not> loads rd item) detected)
          = length detected"
    by (rule sum_length_filter_compl)
  with one have len: "length ?dfs = length detected - 1"
    by simp
  with two have ne: "?dfs \<noteq> []"
    by auto
  then obtain item where item: "item \<in> set detected" "loads rd item"
    by (auto simp: filter_empty_conv)
  have "labelled rd item \<in> set ?dfs"
    using item by simp
  then have "''Country'' \<in> (\<Union>df \<in> set ?dfs. set (columns df))"
    using country_in_labelled [OF item(2)] by blast
  then have country: "''Country'' \<in> set (columns (pd_concat ?dfs))"
    by (simp only: pd_concat_def set_union_columns dataframe.simps)
  have sub: "list_all (\<lambda>df. set (columns df) \<subseteq> set (columns (pd_concat ?dfs))) ?dfs"
    by (auto simp: list_all_iff pd_concat_def set_union_columns)
  have rws: "rows (pd_concat ?dfs)
      = concat (map (tagged_rows rd (columns (pd_concat ?dfs))) (filter (loads rd) detected))"
    by (simp only: pd_concat_def dataframe.simps rows_labelled_concat)
  have cnt: "length (filter is_Failed ?msgs) = 1"
    by (simp only: failed_count one)
  have lm: "length ?msgs = length detected"
    by simp
  have "df_all ?dfs = Some (pd_concat ?dfs)"
    using ne by (simp add: df_all_def)
  with res lm cnt len country sub rws tagged_rows_cells show ?thesis
    by blast
qed

theorem ingest_partial_failure_witness:
  "length (filter (\<lambda>item. \<not> loads
       (\<lambda>path. if path = ''data/benin_clean.csv''
          then Inr \<lparr>columns = [''GHI''], rows = [[''GHI'' \<mapsto> Num 50]]\<rparr>
          else Inl ''EmptyDataError'') item)
     [(''Benin'', ''data/benin_clean.csv''), (''Togo'', ''data/togo.csv'')]) = 1 \<and>
   2 \<le> length [(''Benin'', ''data/benin_clean.csv''), (''Togo'', ''data/togo.csv'')] \<and>
   (\<exists>dfs msgs u.
      load_detected
        (\<lambda>path. if path = ''data/benin_clean.csv''
           then Inr \<lparr>columns = [''GHI''], rows = [[''GHI'' \<mapsto> Num 50]]\<rparr>
           else Inl ''EmptyDataError'')
        [(''Benin'', ''data/benin_clean.csv''), (''Togo'', ''data/togo.csv'')] = (dfs, msgs) \<and>
      msgs = [Loaded ''Benin'' ''data/benin_clean.csv'', Failed ''data/togo.csv'' ''EmptyDataError''] \<and>
      length (filter is_Failed msgs) = 1 \<and>
      df_all dfs = Some u \<and>
      columns u = [''GHI'', ''Country''] \<and>
      rows u = [[''GHI'' \<mapsto> Num 50, ''Country'' \<mapsto> Str ''Benin'']])"
proof -
  let ?rd = "\<lambda>path. if path = ''data/benin_clean.csv''
          then Inr \<lparr>columns = [''GHI''], rows = [[''GHI'' \<mapsto> Num 50]]\<rparr>
          else Inl ''EmptyDataError''"
  let ?det = "[(''Benin'', ''data/benin_clean.csv''), (''Togo'', ''data/togo.csv'')]"
  have one: "length (filter (\<lambda>item. \<not> loads ?rd item) ?det) = 1"
    by (simp add: loads_def)
  have two: "2 \<le> length ?det"
    by simp
  obtain dfs msgs u where
    res: "load_detected ?rd ?det = (dfs, msgs)"
    and cnt: "length (filter is_Failed msgs) = 1"
    and dfs: "dfs = map (labelled ?rd) (filter (loads ?rd) ?det)"
    and u: "df_all dfs = Some u"
    using ingest_partial_failure [OF one two] by blast
  have run: "load_detected ?rd ?det =
      ([\<lparr>columns = [''GHI'', ''Country''], rows = [[''GHI'' \<mapsto> Num 50, ''Country'' \<mapsto> Str ''Benin'']]\<rparr>],
       [Loaded ''Benin'' ''data/benin_clean.csv'', Failed ''data/togo.csv'' ''EmptyDataError''])"
    by (simp add: load_detected_def load_step_pair assign_scalar_def)
  with res have msgs: "msgs = [Loaded ''Benin'' ''data/benin_clean.csv'', Failed ''data/togo.csv'' ''EmptyDataError'']"
    and dfs': "dfs = [\<lparr>columns = [''GHI'', ''Country''], rows = [[''GHI'' \<mapsto> Num 50, ''Country'' \<mapsto> Str ''Benin'']]\<rparr>]"
    by simp_all
  from u have cols: "columns u = [''GHI'', ''Country'']"
    by (auto simp: dfs' df_all_def pd_concat_def union_columns_def)
  from u have rws: "rows u = [[''GHI'' \<mapsto> Num 50, ''Country'' \<mapsto> Str ''Benin'']]"
    by (auto simp: dfs' df_all_def pd_concat_def union_columns_def reindex_def cell_of_def fun_eq_iff)
  from one two res msgs cnt u cols rws show ?thesis
    by blast
qed

text \<open>
  The claim as written fails for \<open>N = 1\<close>: when the only file fails, nothing was loaded,
  the script stops, and no unified table is produced.
\<close>

theorem ingest_single_failure_counterexample:
  "load_detected (\<lambda>path. Inl ''EmptyDataError'') [(''Benin'', ''data/benin.csv'')]
     = ([], [Failed ''data/benin.csv'' ''EmptyDataError'']) \<and>
   df_all (fst (load_detected (\<lambda>path. Inl ''EmptyDataError'') [(''Benin'', ''data/benin.csv'')]))
     = None"
  by (simp add: load_detected_def load_step_pair df_all_def)

section \<open>Aggregation and ranking: results\<close>























end
